theory Spec2Isabelle
  imports Main "HOL-Library.Multiset" "HOL-Library.Sublist"
begin

section \<open>Strings\<close>

text \<open>
  A Python \<open>str\<close> that the script receives from the operating system (an environment
  value, a command-line argument, the name of the OS, the text of a file) is modelled by
  its UTF-8 bytes, a \<^typ>\<open>string\<close>; ASCII text is then written as in the script.  Where
  the script's behaviour depends on characters outside ASCII (regular expression
  matching, \<open>str.strip\<close> on the output of a subprocess) the text is handled as code
  points.  The three glyphs the report prints are written as their UTF-8 bytes.
\<close>

definition glyph_pass :: string where
  "glyph_pass = [CHR 0xE2, CHR 0x9C, CHR 0x85]"

definition glyph_fail :: string where
  "glyph_fail = [CHR 0xE2, CHR 0x9D, CHR 0x8C]"

definition glyph_warn :: string where
  "glyph_warn = [CHR 0xE2, CHR 0x9A, CHR 0xA0, CHR 0xEF, CHR 0xB8, CHR 0x8F]"

text \<open>\<open>str(n)\<close> for a non-negative integer: its decimal digits.\<close>

definition digit_char :: "nat \<Rightarrow> char" where
  "digit_char d =
     (if d = 0 then CHR ''0'' else if d = 1 then CHR ''1'' else if d = 2 then CHR ''2''
      else if d = 3 then CHR ''3'' else if d = 4 then CHR ''4'' else if d = 5 then CHR ''5''
      else if d = 6 then CHR ''6'' else if d = 7 then CHR ''7'' else if d = 8 then CHR ''8''
      else CHR ''9'')"

fun str_nat :: "nat \<Rightarrow> string" where
  "str_nat n =
     (if n < 10 then [digit_char n] else str_nat (n div 10) @ [digit_char (n mod 10)])"

declare str_nat.simps [simp del]

text \<open>
  \<open>str.lower\<close>, on the UTF-8 bytes: the ASCII capital letters are lowered.  The script
  only tests lowered text against ASCII words (\<open>windows\<close>, \<open>darwin\<close>, \<open>linux\<close>,
  \<open>microsoft\<close>), and no character outside ASCII lowers to a letter that can take part
  in such a test.
\<close>

definition is_upper :: "char \<Rightarrow> bool" where
  "is_upper c = (65 \<le> (of_char c :: nat) \<and> (of_char c :: nat) \<le> 90)"

definition is_lower :: "char \<Rightarrow> bool" where
  "is_lower c = (97 \<le> (of_char c :: nat) \<and> (of_char c :: nat) \<le> 122)"

definition lower_char :: "char \<Rightarrow> char" where
  "lower_char c = (if is_upper c then char_of ((of_char c :: nat) + 32) else c)"

definition lower :: "string \<Rightarrow> string" where
  "lower s = map lower_char s"

text \<open>
  White space in ASCII text: tab, line feed, vertical tab, form feed, carriage return,
  the four separators 0x1C to 0x1F, and the space.
\<close>

definition isspace :: "char \<Rightarrow> bool" where
  "isspace c = (let n = (of_char c :: nat) in (9 \<le> n \<and> n \<le> 13) \<or> (28 \<le> n \<and> n \<le> 32))"

text \<open>
  \<open>s.split()\<close>: the maximal runs of characters that are not white space.  The script
  applies it to \<open>sys.version\<close>, which the interpreter builds from ASCII text.
\<close>

fun split_ws_acc :: "string \<Rightarrow> string \<Rightarrow> string list" where
  "split_ws_acc cur [] = (if cur = [] then [] else [cur])"
| "split_ws_acc cur (c # cs) =
     (if isspace c then (if cur = [] then split_ws_acc [] cs else cur # split_ws_acc [] cs)
      else split_ws_acc (cur @ [c]) cs)"

definition split_ws :: "string \<Rightarrow> string list" where
  "split_ws s = split_ws_acc [] s"

text \<open>\<open>s.split(sep)\<close> for a one-character separator, and \<open>sep.join(parts)\<close>.\<close>

fun split_sep :: "char \<Rightarrow> string \<Rightarrow> string list" where
  "split_sep sep [] = [[]]"
| "split_sep sep (c # cs) =
     (if c = sep then [] # split_sep sep cs
      else (case split_sep sep cs of [] \<Rightarrow> [[c]] | w # ws \<Rightarrow> (c # w) # ws))"

fun join :: "string \<Rightarrow> string list \<Rightarrow> string" where
  "join sep [] = []"
| "join sep [x] = x"
| "join sep (x # y # zs) = x @ sep @ join sep (y # zs)"

definition startswith :: "string \<Rightarrow> string \<Rightarrow> bool" where
  "startswith s p = (take (length p) s = p)"

text \<open>
  \<open>repr\<close> of a string and of a list of strings, as an f-string prints a list: the
  quote is the double quote when the string holds a single quote and no double quote,
  the single quote otherwise; the backslash, the chosen quote and the control
  characters are escaped.
\<close>

definition backslash :: char where
  "backslash = CHR 0x5C"





section \<open>Code points\<close>

text \<open>
  A \<open>str\<close> as Python sees it: the list of its code points.  \<open>ascii\<close> reads ASCII text,
  \<open>decode\<close> reads UTF-8 bytes the way Python decodes what the operating system hands
  it (UTF-8 with \<open>surrogateescape\<close>): a well-formed sequence of one to four bytes is
  one code point, and a byte outside any well-formed sequence becomes the lone
  surrogate \<open>0xDC00 + byte\<close>.
\<close>

type_synonym ustr = "nat list"

definition ascii :: "string \<Rightarrow> ustr" where
  "ascii s = map of_char s"

definition is_cont :: "nat \<Rightarrow> bool" where
  "is_cont b = (128 \<le> b \<and> b \<le> 191)"

fun utf8 :: "nat list \<Rightarrow> ustr" where
  "utf8 [] = []"
| "utf8 [b] = [if b < 128 then b else 56320 + b]"
| "utf8 [b, b1] =
     (if b < 128 then b # utf8 [b1]
      else if 194 \<le> b \<and> b \<le> 223 \<and> is_cont b1 then [(b - 192) * 64 + (b1 - 128)]
      else (56320 + b) # utf8 [b1])"
| "utf8 [b, b1, b2] =
     (if b < 128 then b # utf8 [b1, b2]
      else if 194 \<le> b \<and> b \<le> 223 \<and> is_cont b1 then ((b - 192) * 64 + (b1 - 128)) # utf8 [b2]
      else if 224 \<le> b \<and> b \<le> 239 \<and> is_cont b1 \<and> is_cont b2
              \<and> (if b = 224 then 160 \<le> b1 else True) \<and> (if b = 237 then b1 \<le> 159 else True)
        then [(b - 224) * 4096 + (b1 - 128) * 64 + (b2 - 128)]
      else (56320 + b) # utf8 [b1, b2])"
| "utf8 (b # b1 # b2 # b3 # bs) =
     (if b < 128 then b # utf8 (b1 # b2 # b3 # bs)
      else if 194 \<le> b \<and> b \<le> 223 \<and> is_cont b1
        then ((b - 192) * 64 + (b1 - 128)) # utf8 (b2 # b3 # bs)
      else if 224 \<le> b \<and> b \<le> 239 \<and> is_cont b1 \<and> is_cont b2
              \<and> (if b = 224 then 160 \<le> b1 else True) \<and> (if b = 237 then b1 \<le> 159 else True)
        then ((b - 224) * 4096 + (b1 - 128) * 64 + (b2 - 128)) # utf8 (b3 # bs)
      else if 240 \<le> b \<and> b \<le> 244 \<and> is_cont b1 \<and> is_cont b2 \<and> is_cont b3
              \<and> (if b = 240 then 144 \<le> b1 else True) \<and> (if b = 244 then b1 \<le> 143 else True)
        then ((b - 240) * 262144 + (b1 - 128) * 4096 + (b2 - 128) * 64 + (b3 - 128)) # utf8 bs
      else (56320 + b) # utf8 (b1 # b2 # b3 # bs))"

definition decode :: "string \<Rightarrow> ustr" where
  "decode s = utf8 (map of_char s)"

text \<open>
  \<open>str.isspace\<close>: the white space of ASCII, the next-line and no-break-space
  characters, and the space separators, line separator and paragraph separator of
  Unicode.  \<open>s.strip()\<close> removes such characters at both ends.
\<close>

definition unicode_isspace :: "nat \<Rightarrow> bool" where
  "unicode_isspace n =
     ((9 \<le> n \<and> n \<le> 13) \<or> (28 \<le> n \<and> n \<le> 32) \<or> n = 0x85 \<or> n = 0xA0 \<or> n = 0x1680
      \<or> (0x2000 \<le> n \<and> n \<le> 0x200A) \<or> n = 0x2028 \<or> n = 0x2029 \<or> n = 0x202F
      \<or> n = 0x205F \<or> n = 0x3000)"

definition strip :: "ustr \<Rightarrow> ustr" where
  "strip s = rev (dropWhile unicode_isspace (rev (dropWhile unicode_isspace s)))"

section \<open>Regular expressions\<close>

text \<open>
  The script calls \<open>re.match\<close> and \<open>re.search\<close> on six constant patterns.  The model
  covers the syntax they use: literal characters, a backslash before a special
  character, the anchor \<open>^\<close>, a character class \<open>[...]\<close> or \<open>[^...]\<close> of characters and
  ranges, and the repetition \<open>+\<close>.  A pattern is parsed from its text, as written in
  the script; a pattern outside this syntax, or with a character outside ASCII, has no
  parse.
\<close>

datatype cset = Only char | Range char char

datatype atom = Lit char | Class bool "cset list"

datatype item = Bol | One atom | Plus atom

definition meta_char :: "char \<Rightarrow> bool" where
  "meta_char c = (c \<in> set (''.^$*+?{}[]|()'' @ [backslash]))"

fun parse_class :: "string \<Rightarrow> (cset list \<times> string) option" where
  "parse_class [] = None"
| "parse_class [c] = (if c = CHR '']'' then Some ([], []) else None)"
| "parse_class [c, d] =
     (if c = CHR '']'' then Some ([], [d])
      else map_option (\<lambda>(ms, r). (Only c # ms, r)) (parse_class [d]))"
| "parse_class (c # d # e # cs) =
     (if c = CHR '']'' then Some ([], d # e # cs)
      else if d = CHR ''-'' \<and> e \<noteq> CHR '']''
        then map_option (\<lambda>(ms, r). (Range c e # ms, r)) (parse_class cs)
        else map_option (\<lambda>(ms, r). (Only c # ms, r)) (parse_class (d # e # cs)))"

lemma parse_class_length: "parse_class s = Some (ms, r) \<Longrightarrow> length r < length s"
  by (induction s arbitrary: ms r rule: parse_class.induct) (auto split: if_splits)

fun parse_atom :: "string \<Rightarrow> (atom \<times> string) option" where
  "parse_atom [] = None"
| "parse_atom (c # cs) =
     (if c = backslash then
        (case cs of [] \<Rightarrow> None
         | d # ds \<Rightarrow> if meta_char d then Some (Lit d, ds) else None)
      else if c = CHR ''['' then
        (case cs of [] \<Rightarrow> None
         | d # ds \<Rightarrow>
             if d = CHR ''^'' then map_option (\<lambda>(ms, r). (Class True ms, r)) (parse_class ds)
             else map_option (\<lambda>(ms, r). (Class False ms, r)) (parse_class cs))
      else if meta_char c then None
      else Some (Lit c, cs))"

lemma parse_atom_length: "parse_atom s = Some (a, r) \<Longrightarrow> length r < length s"
  by (cases s) (auto split: if_splits list.splits dest!: parse_class_length)

function re_parse :: "string \<Rightarrow> item list option" where
  "re_parse [] = Some []"
| "re_parse (c # cs) =
     (if c = CHR ''^'' then map_option (Cons Bol) (re_parse cs)
      else
        (case parse_atom (c # cs) of
           None \<Rightarrow> None
         | Some (a, r) \<Rightarrow>
             (case r of
                [] \<Rightarrow> Some [One a]
              | d # ds \<Rightarrow>
                  if d = CHR ''+'' then map_option (Cons (Plus a)) (re_parse ds)
                  else map_option (Cons (One a)) (re_parse r))))"
  by pat_completeness auto
termination
  by (relation "measure length") (auto dest!: parse_atom_length simp del: parse_atom.simps)

definition re_compile :: "string \<Rightarrow> item list option" where
  "re_compile pattern =
     (if list_all (\<lambda>c. (of_char c :: nat) < 128) pattern then re_parse pattern else None)"

text \<open>
  Matching, on code points.  The flag \<open>ic\<close> is \<open>re.IGNORECASE\<close> on a \<open>str\<close> pattern,
  as the \<open>re\<close> module compiles it.  A literal that is not a letter matches itself.  A
  letter is lowered, and matches a character whose simple lower case is that letter or
  one of its case equivalents: \<open>i\<close> and the dotless i (U+0131) are equivalent, and so
  are \<open>s\<close> and the long s (U+017F).  Outside ASCII the characters whose lower case is
  an ASCII letter are the dotted capital I (U+0130) and the Kelvin sign (U+212A).  A
  class is the set of its lowered members with their equivalents; the subject
  character is lowered before the test when the class holds a letter.
\<close>

definition iscased :: "nat \<Rightarrow> bool" where
  "iscased n = ((65 \<le> n \<and> n \<le> 90) \<or> (97 \<le> n \<and> n \<le> 122))"

definition unicode_tolower :: "nat \<Rightarrow> nat" where
  "unicode_tolower n =
     (if 65 \<le> n \<and> n \<le> 90 then n + 32
      else if n = 0x130 then 0x69
      else if n = 0x212A then 0x6B
      else n)"

definition case_fixes :: "nat \<Rightarrow> nat list" where
  "case_fixes lo =
     (if lo = 0x69 then [0x69, 0x131] else if lo = 0x73 then [0x73, 0x17F] else [lo])"

definition lit_ok :: "bool \<Rightarrow> char \<Rightarrow> nat \<Rightarrow> bool" where
  "lit_ok ic a n =
     (let av = (of_char a :: nat) in
      if ic \<and> iscased av then unicode_tolower n \<in> set (case_fixes (unicode_tolower av))
      else n = av)"

fun cset_points :: "bool \<Rightarrow> cset \<Rightarrow> nat list" where
  "cset_points ic (Only a) =
     (if ic then case_fixes (unicode_tolower (of_char a)) else [of_char a])"
| "cset_points ic (Range lo hi) =
     (let r = [of_char lo ..< Suc (of_char hi)] in
      if ic then concat (map (\<lambda>x. case_fixes (unicode_tolower x)) r) else r)"

fun cset_cased :: "cset \<Rightarrow> bool" where
  "cset_cased (Only a) = iscased (of_char a)"
| "cset_cased (Range lo hi) = list_ex iscased [of_char lo ..< Suc (of_char hi)]"

fun atom_ok :: "bool \<Rightarrow> atom \<Rightarrow> nat \<Rightarrow> bool" where
  "atom_ok ic (Lit a) n = lit_ok ic a n"
| "atom_ok ic (Class neg ms) n =
     (let ch = (if ic \<and> list_ex cset_cased ms then unicode_tolower n else n)
      in neg \<noteq> (ch \<in> set (concat (map (cset_points ic) ms))))"

text \<open>
  \<open>match_here ic st its s\<close>: the items match a prefix of \<open>s\<close>; \<open>st\<close> says that \<open>s\<close>
  begins at the start of the subject string, where \<open>^\<close> matches.
\<close>

fun match_here :: "bool \<Rightarrow> bool \<Rightarrow> item list \<Rightarrow> ustr \<Rightarrow> bool" where
  "match_here ic st [] s = True"
| "match_here ic st (Bol # its) s = (st \<and> match_here ic st its s)"
| "match_here ic st (One a # its) [] = False"
| "match_here ic st (One a # its) (c # cs) = (atom_ok ic a c \<and> match_here ic False its cs)"
| "match_here ic st (Plus a # its) [] = False"
| "match_here ic st (Plus a # its) (c # cs) =
     (atom_ok ic a c \<and> (match_here ic False its cs \<or> match_here ic False (Plus a # its) cs))"


text \<open>
  \<open>re.match(pattern, s, flags)\<close> and \<open>re.search(pattern, s, flags)\<close> as truth values
  (the script only tests the result), on a subject given by its bytes.  A pattern
  without a parse is answered \<open>False\<close>; the patterns of the script all have one.
\<close>

definition re_match :: "string \<Rightarrow> string \<Rightarrow> bool \<Rightarrow> bool" where
  "re_match pattern s ic =
     (case re_compile pattern of
        None \<Rightarrow> False
      | Some its \<Rightarrow> match_here ic True its (decode s))"





section \<open>The data model\<close>

text \<open>
  \<^verbatim>\<open>
  @dataclass
  class CheckResult:
      name: str
      ok: bool
      details: str = ""
      fix: str = ""
      required: bool = True
  \<close>
\<close>

record CheckResult =
  name :: string
  ok :: bool
  details :: string
  "fix" :: string
  required :: bool

section \<open>The host\<close>

text \<open>
  What the probes read from the process and the operating system is passed to them:
  the environment \<open>os.environ\<close> as a map, the value of \<open>platform.system()\<close>, the text
  of \<open>/proc/version\<close> (\<open>None\<close> when opening, reading or decoding it raises), the
  functions \<open>os.path.abspath\<close>, \<open>shutil.which\<close> and \<open>subprocess.run\<close>, and the
  interpreter's \<open>sys.version_info\<close>, \<open>sys.version\<close> and \<open>sys.executable\<close>.
\<close>

type_synonym environ = "string \<rightharpoonup> string"

definition environ_get :: "environ \<Rightarrow> string \<Rightarrow> string option" where
  "environ_get environ key = environ key"


record sys_info =
  version_major :: int
  version_minor :: int
  version :: string
  executable :: string

text \<open>
  The exceptions of the model: \<open>IndexError\<close>; the three \<open>OSError\<close> subclasses that
  starting a process can raise when the executable cannot be run (no such file, a
  component of the path that is not a directory, no permission); the timeout of
  \<open>subprocess\<close>; and any other exception, by name.
\<close>

datatype py_error =
    IndexError
  | FileNotFoundError
  | NotADirectoryError
  | PermissionError
  | TimeoutExpired
  | Raised string

text \<open>
  The outcome of \<open>subprocess.run(cmd, capture_output=True, text=True, timeout=t)\<close>: a
  completed process with its return code and its two outputs (text, so code points),
  or an exception.
\<close>

datatype proc_outcome =
    CompletedProcess int ustr ustr
  | Raises py_error

section \<open>The subprocess utility and the lookups\<close>

text \<open>
  \<^verbatim>\<open>
  def run(cmd: List[str], timeout: int = 5) -> Tuple[int, str, str]:
      try:
          p = subprocess.run(cmd, capture_output=True, text=True, timeout=timeout)
          return p.returncode, p.stdout.strip(), p.stderr.strip()
      except FileNotFoundError:
          return 127, "", f"not found: {cmd[0]}"
      except subprocess.TimeoutExpired:
          return 124, "", "timeout"
  \<close>
  The optional argument is \<open>None\<close> when the caller leaves it out.  \<open>cmd[0]\<close> in the
  handler raises \<open>IndexError\<close> on an empty list.  The two \<open>except\<close> clauses catch
  \<open>FileNotFoundError\<close> and \<open>TimeoutExpired\<close>; every other exception leaves \<open>run\<close>.
\<close>

definition run ::
  "(ustr list \<Rightarrow> int \<Rightarrow> proc_outcome) \<Rightarrow> ustr list \<Rightarrow> int option
     \<Rightarrow> py_error + (int \<times> ustr \<times> ustr)" where
  "run subprocess_run cmd timeout_arg =
     (let timeout = (case timeout_arg of None \<Rightarrow> 5 | Some t \<Rightarrow> t) in
      case subprocess_run cmd timeout of
        CompletedProcess returncode out err \<Rightarrow> Inr (returncode, strip out, strip err)
      | Raises e \<Rightarrow>
          (if e = FileNotFoundError then
             (case cmd of
                [] \<Rightarrow> Inl IndexError
              | c0 # _ \<Rightarrow> Inr (127, [], ascii ''not found: '' @ c0))
           else if e = TimeoutExpired then Inr (124, [], ascii ''timeout'')
           else Inl e))"

definition which :: "(string \<Rightarrow> string option) \<Rightarrow> string \<Rightarrow> string option" where
  "which shutil_which bin_name = shutil_which bin_name"

section \<open>The platform detector\<close>

text \<open>
  \<^verbatim>\<open>
  def is_wsl() -> bool:
      if os.environ.get("WSL_DISTRO_NAME"):
          return True
      try:
          with open("/proc/version", "r", encoding="utf-8") as f:
              return "microsoft" in f.read().lower()
      except Exception:
          return False
  \<close>
  The test of the \<open>if\<close> is Python's truth value of an optional string: \<open>None\<close> and the
  empty string are false.  \<open>x in s\<close> on strings is the contiguous-substring test
  \<^const>\<open>sublist\<close>.
\<close>

definition truthy :: "string option \<Rightarrow> bool" where
  "truthy v = (case v of None \<Rightarrow> False | Some s \<Rightarrow> s \<noteq> [])"

definition is_wsl :: "environ \<Rightarrow> string option \<Rightarrow> bool" where
  "is_wsl environ proc_version =
     (if truthy (environ_get environ ''WSL_DISTRO_NAME'') then True
      else (case proc_version of
              Some text \<Rightarrow> sublist ''microsoft'' (lower text)
            | None \<Rightarrow> False))"

definition is_windows_native :: "string \<Rightarrow> bool" where
  "is_windows_native system = (lower system = ''windows'')"

definition is_macos :: "string \<Rightarrow> bool" where
  "is_macos system = (lower system = ''darwin'')"

definition is_linux :: "string \<Rightarrow> bool" where
  "is_linux system = (lower system = ''linux'')"

definition os_check_name :: string where
  "os_check_name = ''OS is Linux / WSL / macOS (not Windows-native)''"

definition check_os :: "string \<Rightarrow> environ \<Rightarrow> string option \<Rightarrow> CheckResult" where
  "check_os system environ proc_version =
     (if is_windows_native system then
        \<lparr>name = os_check_name, ok = False, details = ''Detected: '' @ system,
         fix = ''Run this script inside WSL/Linux/macOS terminal.'', required = True\<rparr>
      else
        (let kind = (if is_wsl environ proc_version then ''WSL''
                     else (if is_macos system then ''macOS'' else ''Linux''))
         in \<lparr>name = os_check_name, ok = True, details = ''Detected: '' @ kind,
             fix = '''', required = True\<rparr>))"

text \<open>
  The specification's wording of the compatibility-layer signal, to compare with
  \<open>is_wsl\<close>: the variable \<open>WSL_DISTRO_NAME\<close> has a non-empty value, or the kernel
  version text was read and holds \<open>microsoft\<close> in some mix of cases.
\<close>

definition wsl_signal :: "environ \<Rightarrow> string option \<Rightarrow> bool" where
  "wsl_signal environ proc_version =
     ((case environ ''WSL_DISTRO_NAME'' of None \<Rightarrow> False | Some v \<Rightarrow> v \<noteq> [])
      \<or> (case proc_version of None \<Rightarrow> False | Some t \<Rightarrow> sublist ''microsoft'' (lower t)))"

section \<open>The filesystem locator\<close>

text \<open>
  \<^verbatim>\<open>
  def project_is_on_linux_fs(project_path: str) -> bool:
      p = os.path.abspath(project_path)
      return not re.match(r"^/mnt/[a-zA-Z]/", p)
  \<close>
\<close>

definition project_is_on_linux_fs :: "(string \<Rightarrow> string) \<Rightarrow> string \<Rightarrow> bool" where
  "project_is_on_linux_fs abspath project_path =
     (let p = abspath project_path in \<not> re_match ''^/mnt/[a-zA-Z]/'' p False)"

definition check_project_path :: "(string \<Rightarrow> string) \<Rightarrow> string \<Rightarrow> CheckResult" where
  "check_project_path abspath project_path =
     (let ok_flag = project_is_on_linux_fs abspath project_path;
          p = abspath project_path
      in \<lparr>name = ''Project directory is on Linux filesystem (not /mnt/c)'', ok = ok_flag,
          details = p, fix = ''Move project into Linux FS (e.g. /home/<user>/project).'',
          required = True\<rparr>)"

text \<open>
  The specification's wording of the Windows-mount prefix, to compare with the regular
  expression: the path begins with \<open>/mnt/\<close>, then one ASCII letter of either case,
  then a slash.
\<close>

definition ascii_letter :: "char \<Rightarrow> bool" where
  "ascii_letter c = (is_lower c \<or> is_upper c)"

definition has_mnt_drive_prefix :: "string \<Rightarrow> bool" where
  "has_mnt_drive_prefix p =
     (startswith p ''/mnt/'' \<and>
      (case drop 5 p of c # d # _ \<Rightarrow> ascii_letter c \<and> d = CHR ''/'' | _ \<Rightarrow> False))"

text \<open>
  \<open>os.path.abspath\<close> on a POSIX host, after the standard library's \<open>posixpath\<close>: a
  relative path is joined to the current directory, then \<open>normpath\<close> drops empty and
  \<open>.\<close> components, resolves \<open>..\<close> against the component before it, and keeps one
  leading slash (or exactly two).
\<close>

definition normpath_step :: "nat \<Rightarrow> string list \<Rightarrow> string \<Rightarrow> string list" where
  "normpath_step initial_slashes new_comps cmp =
     (if cmp = '''' \<or> cmp = ''.'' then new_comps
      else if cmp \<noteq> ''..'' \<or> (initial_slashes = 0 \<and> new_comps = [])
              \<or> (new_comps \<noteq> [] \<and> last new_comps = ''..'')
        then new_comps @ [cmp]
      else if new_comps \<noteq> [] then butlast new_comps
      else new_comps)"

definition normpath :: "string \<Rightarrow> string" where
  "normpath path =
     (if path = [] then ''.''
      else
        (let initial_slashes =
               (if startswith path ''/'' then
                  (if startswith path ''//'' \<and> \<not> startswith path ''///'' then 2 else 1)
                else (0::nat));
             comps = split_sep CHR ''/'' path;
             new_comps = foldl (normpath_step initial_slashes) [] comps;
             joined = join ''/'' new_comps;
             result = (if initial_slashes \<noteq> 0
                       then replicate initial_slashes CHR ''/'' @ joined else joined)
         in if result = [] then ''.'' else result))"

definition path_join :: "string \<Rightarrow> string \<Rightarrow> string" where
  "path_join a b =
     (if startswith b ''/'' then b
      else if a = [] \<or> last a = CHR ''/'' then a @ b
      else a @ ''/'' @ b)"

definition posix_abspath :: "string \<Rightarrow> string \<Rightarrow> string" where
  "posix_abspath cwd path =
     (if \<not> startswith path ''/'' then normpath (path_join cwd path) else normpath path)"

section \<open>The path hygiene scanner\<close>








section \<open>The runtime version check\<close>

text \<open>
  \<^verbatim>\<open>
  def check_python_version() -> CheckResult:
      ok = (sys.version_info.major, sys.version_info.minor) >= (3, 10)
      details = f"{sys.version.split()[0]} ({sys.executable})"
      ...
  \<close>
  Tuples compare lexicographically.  \<open>sys.version.split()[0]\<close> raises \<open>IndexError\<close>
  when the version string has no token.
\<close>

definition tuple_ge :: "int \<times> int \<Rightarrow> int \<times> int \<Rightarrow> bool" where
  "tuple_ge a b = (if fst a \<noteq> fst b then fst a > fst b else snd a \<ge> snd b)"

definition check_python_version :: "sys_info \<Rightarrow> py_error + CheckResult" where
  "check_python_version sys =
     (let ok_flag = tuple_ge (version_major sys, version_minor sys) (3, 10) in
      case split_ws (version sys) of
        [] \<Rightarrow> Inl IndexError
      | v # _ \<Rightarrow>
          Inr \<lparr>name = ''Python version >= 3.10'', ok = ok_flag,
               details = v @ '' ('' @ executable sys @ '')'',
               fix = ''Install Python 3.10+ and activate the correct uv venv.'',
               required = True\<rparr>)"

section \<open>The binary resolver\<close>

text \<open>
  \<^verbatim>\<open>
  def check_bin(name: str, required: bool, label: str) -> CheckResult:
      p = which(name)
      ok = p is not None
      return CheckResult(
          name=f"{label} is installed", ok=ok, details=p or "not found",
          fix=f"Install `{label}` in WSL/Linux/macOS and ensure it is on PATH.",
          required=required)
  \<close>
  \<open>p or "not found"\<close> is \<open>p\<close> when \<open>p\<close> is a non-empty string, and the other operand
  when \<open>p\<close> is \<open>None\<close> or empty.
\<close>

definition or_else :: "string option \<Rightarrow> string \<Rightarrow> string" where
  "or_else v dflt = (case v of None \<Rightarrow> dflt | Some s \<Rightarrow> if s \<noteq> [] then s else dflt)"

definition check_bin ::
  "(string \<Rightarrow> string option) \<Rightarrow> string \<Rightarrow> bool \<Rightarrow> string \<Rightarrow> CheckResult" where
  "check_bin shutil_which bin_name req label =
     (let p = which shutil_which bin_name;
          ok_flag = (p \<noteq> None)
      in \<lparr>name = label @ '' is installed'', ok = ok_flag, details = or_else p ''not found'',
          fix = ''Install `'' @ label @ ''` in WSL/Linux/macOS and ensure it is on PATH.'',
          required = req\<rparr>)"

definition check_node_nvm :: "(string \<Rightarrow> string option) \<Rightarrow> bool \<Rightarrow> CheckResult" where
  "check_node_nvm shutil_which strict =
     (let node = which shutil_which ''node'';
          ok_flag = (case node of None \<Rightarrow> False | Some n \<Rightarrow> n \<noteq> [] \<and> sublist ''.nvm'' n)
      in \<lparr>name = ''Node.js is installed via nvm'', ok = ok_flag,
          details = or_else node ''node not found'',
          fix = ''Install Node.js via nvm and run `nvm use`.'', required = strict\<rparr>)"

section \<open>The check aggregator\<close>

text \<open>
  \<open>print_results\<close> prints a report and returns the exit status.  The model returns the
  pair of the printed lines (one list element for each call of \<open>print\<close>, in order) and
  the returned integer.
\<close>

definition failed_required :: "CheckResult list \<Rightarrow> CheckResult list" where
  "failed_required results = filter (\<lambda>r. required r \<and> \<not> ok r) results"

definition failed_optional :: "CheckResult list \<Rightarrow> CheckResult list" where
  "failed_optional results = filter (\<lambda>r. \<not> required r \<and> \<not> ok r) results"

text \<open>The body of the loop over the results: the lines printed for one result.\<close>

definition print_result :: "CheckResult \<Rightarrow> string list" where
  "print_result r =
     (let status = (if ok r then glyph_pass else glyph_fail);
          req = (if required r then ''REQUIRED'' else ''OPTIONAL'')
      in [status @ '' ['' @ req @ ''] '' @ name r]
         @ (if details r \<noteq> [] then [''    - '' @ details r] else [])
         @ (if \<not> ok r then [''    - Fix: '' @ fix r] else [])
         @ [''''])"

definition print_results :: "CheckResult list \<Rightarrow> string list \<times> int" where
  "print_results results =
     (let fr = failed_required results;
          fo = failed_optional results;
          out = concat (map print_result results)
      in if fr \<noteq> [] then
           (out @ [glyph_fail @ '' Environment check FAILED ('' @ str_nat (length fr)
                     @ '' required issue(s))''], 1)
         else if fo \<noteq> [] then
           (out @ [glyph_warn @ '' Environment check PASSED with warnings (''
                     @ str_nat (length fo) @ '')''], 0)
         else (out @ [glyph_pass @ '' Environment check PASSED''], 0))"

text \<open>The \<open>(ok, required)\<close> pair of a result, and three sample results.\<close>

definition flags :: "CheckResult \<Rightarrow> bool \<times> bool" where
  "flags r = (ok r, required r)"

definition sample_pass :: CheckResult where
  "sample_pass = \<lparr>name = ''uv is installed'', ok = True, details = ''/usr/bin/uv'',
     fix = ''Install uv'', required = True\<rparr>"

definition sample_fail_required :: CheckResult where
  "sample_fail_required = \<lparr>name = ''Node.js is installed'', ok = False,
     details = ''not found'', fix = ''Install Node.js'', required = True\<rparr>"

definition sample_fail_optional :: CheckResult where
  "sample_fail_optional = \<lparr>name = ''Gemini CLI (gemini) is installed'', ok = False,
     details = ''not found'', fix = ''Install gemini'', required = False\<rparr>"

text \<open>Sample hosts: three interpreters, a search-path lookup and a subprocess runner.\<close>

definition sys_39 :: sys_info where
  "sys_39 = \<lparr>version_major = 3, version_minor = 9,
     version = ''3.9.18 (main, Aug 25 2023, 13:20:14) [GCC 11.4.0]'',
     executable = ''/usr/bin/python3''\<rparr>"

definition sys_310 :: sys_info where
  "sys_310 = \<lparr>version_major = 3, version_minor = 10,
     version = ''3.10.0 (default, Oct  4 2021, 00:00:00) [GCC 11.2.0]'',
     executable = ''/usr/bin/python3''\<rparr>"

definition sys_313 :: sys_info where
  "sys_313 = \<lparr>version_major = 3, version_minor = 13,
     version = ''3.13.1 (main, Dec  3 2024, 17:59:52) [GCC 13.3.0]'',
     executable = ''/home/dev/.venv/bin/python''\<rparr>"

definition which_sample :: "string \<Rightarrow> string option" where
  "which_sample bin_name = (if bin_name = ''uv'' then Some ''/usr/local/bin/uv'' else None)"

definition subprocess_sample :: "ustr list \<Rightarrow> int \<Rightarrow> proc_outcome" where
  "subprocess_sample cmd timeout =
     (if cmd = [ascii ''sleep'', ascii ''60''] then Raises TimeoutExpired
      else if cmd = [ascii ''nosuchtool'', ascii ''--version''] then Raises FileNotFoundError
      else if cmd = [ascii ''/etc/passwd/nosuchtool''] then Raises NotADirectoryError
      else CompletedProcess 0 ([0xA0] @ ascii '' ok'' @ [0x2003, 10]) (ascii ''warn ''))"





section \<open>Properties of the check aggregator\<close>

lemma failed_required_nonempty:
  "failed_required rs \<noteq> [] \<longleftrightarrow> (\<exists>r \<in> set rs. required r \<and> \<not> ok r)"
  by (auto simp: failed_required_def filter_empty_conv)

lemma failed_optional_nonempty:
  "failed_optional rs \<noteq> [] \<longleftrightarrow> (\<exists>r \<in> set rs. \<not> required r \<and> \<not> ok r)"
  by (auto simp: failed_optional_def filter_empty_conv)

lemma failed_required_flags:
  "failed_required rs \<noteq> [] \<longleftrightarrow> (False, True) \<in># mset (map flags rs)"
  by (auto simp: failed_required_nonempty flags_def image_iff)

lemma exit_status_flags:
  "snd (print_results rs) = (if (False, True) \<in># mset (map flags rs) then 1 else 0)"
  unfolding failed_required_flags [symmetric]
  by (simp add: print_results_def Let_def)

text \<open>
  C1.  The exit status is 1 exactly when some result is required and not ok, and 0
  otherwise.  The report is the lines of the results in input order followed by one
  summary line.  With a required failure the summary is the cross mark and
  \<open>Environment check FAILED (n required issue(s))\<close>, \<open>n\<close> the number of required
  failures.  With no required failure and some optional failure it is the warning sign
  and \<open>Environment check PASSED with warnings (n)\<close>, \<open>n\<close> the number of optional
  failures.  When no result failed it is the check mark and \<open>Environment check PASSED\<close>.
\<close>

theorem print_results_exit_status:
  "((\<exists>r \<in> set rs. required r \<and> \<not> ok r) \<longrightarrow>
      print_results rs =
        (concat (map print_result rs)
           @ [[CHR 0xE2, CHR 0x9D, CHR 0x8C] @ '' Environment check FAILED (''
                @ str_nat (length (filter (\<lambda>r. required r \<and> \<not> ok r) rs))
                @ '' required issue(s))''], 1))
   \<and> (\<not> (\<exists>r \<in> set rs. required r \<and> \<not> ok r) \<and> (\<exists>r \<in> set rs. \<not> required r \<and> \<not> ok r) \<longrightarrow>
      print_results rs =
        (concat (map print_result rs)
           @ [[CHR 0xE2, CHR 0x9A, CHR 0xA0, CHR 0xEF, CHR 0xB8, CHR 0x8F]
                @ '' Environment check PASSED with warnings (''
                @ str_nat (length (filter (\<lambda>r. \<not> required r \<and> \<not> ok r) rs)) @ '')''], 0))
   \<and> ((\<forall>r \<in> set rs. ok r) \<longrightarrow>
      print_results rs =
        (concat (map print_result rs)
           @ [[CHR 0xE2, CHR 0x9C, CHR 0x85] @ '' Environment check PASSED''], 0))
   \<and> snd (print_results rs) = (if \<exists>r \<in> set rs. required r \<and> \<not> ok r then 1 else 0)"
proof -
  have fr: "failed_required rs \<noteq> [] \<longleftrightarrow> (\<exists>r \<in> set rs. required r \<and> \<not> ok r)"
    by (rule failed_required_nonempty)
  have fo: "failed_optional rs \<noteq> [] \<longleftrightarrow> (\<exists>r \<in> set rs. \<not> required r \<and> \<not> ok r)"
    by (rule failed_optional_nonempty)
  have all_ok: "failed_required rs = [] \<and> failed_optional rs = []" if "\<forall>r \<in> set rs. ok r"
    using that by (simp add: failed_required_def failed_optional_def filter_empty_conv)
  have len: "length (failed_required rs) = length (filter (\<lambda>r. required r \<and> \<not> ok r) rs)"
    "length (failed_optional rs) = length (filter (\<lambda>r. \<not> required r \<and> \<not> ok r) rs)"
    by (simp_all add: failed_required_def failed_optional_def)
  show ?thesis
    using fr fo all_ok
    by (auto simp: print_results_def Let_def len glyph_fail_def glyph_warn_def glyph_pass_def)
qed

lemma str_nat_1: "str_nat (Suc 0) = ''1''"
  by (simp add: str_nat.simps digit_char_def)

theorem print_results_exit_status_witness:
  "(\<exists>r \<in> set [sample_pass, sample_fail_optional, sample_fail_required]. required r \<and> \<not> ok r)
   \<and> print_results [sample_pass, sample_fail_optional, sample_fail_required] =
       ([[CHR 0xE2, CHR 0x9C, CHR 0x85] @ '' [REQUIRED] uv is installed'',
         ''    - /usr/bin/uv'',
         '''',
         [CHR 0xE2, CHR 0x9D, CHR 0x8C] @ '' [OPTIONAL] Gemini CLI (gemini) is installed'',
         ''    - not found'',
         ''    - Fix: Install gemini'',
         '''',
         [CHR 0xE2, CHR 0x9D, CHR 0x8C] @ '' [REQUIRED] Node.js is installed'',
         ''    - not found'',
         ''    - Fix: Install Node.js'',
         '''',
         [CHR 0xE2, CHR 0x9D, CHR 0x8C] @ '' Environment check FAILED (1 required issue(s))''], 1)
   \<and> \<not> (\<exists>r \<in> set [sample_pass, sample_fail_optional]. required r \<and> \<not> ok r)
   \<and> (\<exists>r \<in> set [sample_pass, sample_fail_optional]. \<not> required r \<and> \<not> ok r)
   \<and> print_results [sample_pass, sample_fail_optional] =
       ([[CHR 0xE2, CHR 0x9C, CHR 0x85] @ '' [REQUIRED] uv is installed'',
         ''    - /usr/bin/uv'',
         '''',
         [CHR 0xE2, CHR 0x9D, CHR 0x8C] @ '' [OPTIONAL] Gemini CLI (gemini) is installed'',
         ''    - not found'',
         ''    - Fix: Install gemini'',
         '''',
         [CHR 0xE2, CHR 0x9A, CHR 0xA0, CHR 0xEF, CHR 0xB8, CHR 0x8F]
           @ '' Environment check PASSED with warnings (1)''], 0)
   \<and> ok sample_pass
   \<and> print_results [sample_pass] =
       ([[CHR 0xE2, CHR 0x9C, CHR 0x85] @ '' [REQUIRED] uv is installed'',
         ''    - /usr/bin/uv'',
         '''',
         [CHR 0xE2, CHR 0x9C, CHR 0x85] @ '' Environment check PASSED''], 0)"
  using print_results_exit_status [of "[sample_pass, sample_fail_optional, sample_fail_required]"]
    print_results_exit_status [of "[sample_pass, sample_fail_optional]"]
    print_results_exit_status [of "[sample_pass]"]
  by (simp add: sample_pass_def sample_fail_optional_def sample_fail_required_def
      print_result_def glyph_pass_def glyph_fail_def str_nat_1)

text \<open>
  C8.  Two result lists with the same multiset of \<open>(ok, required)\<close> pairs give the same
  exit status.  A permutation of the list, and any change of the \<open>name\<close>, \<open>details\<close> or
  \<open>fix\<close> fields, keeps that multiset.  The report and the exit status are the value of a
  function of the result list, so the same list gives the same report and status.
\<close>

theorem print_results_exit_multiset:
  "mset (map flags xs) = mset (map flags ys) \<Longrightarrow>
     snd (print_results xs) = snd (print_results ys)"
  by (simp add: exit_status_flags)

theorem print_results_exit_multiset_witness:
  "mset (map flags [sample_pass, sample_fail_required, sample_fail_optional]) =
     mset (map flags [sample_fail_optional\<lparr>name := ''x'', details := '''', fix := ''y''\<rparr>,
                      sample_pass, sample_fail_required])
   \<and> snd (print_results [sample_pass, sample_fail_required, sample_fail_optional]) =
       snd (print_results [sample_fail_optional\<lparr>name := ''x'', details := '''', fix := ''y''\<rparr>,
                           sample_pass, sample_fail_required])"
proof -
  have h: "mset (map flags [sample_pass, sample_fail_required, sample_fail_optional]) =
     mset (map flags [sample_fail_optional\<lparr>name := ''x'', details := '''', fix := ''y''\<rparr>,
                      sample_pass, sample_fail_required])"
    by (simp add: flags_def sample_pass_def sample_fail_optional_def sample_fail_required_def)
  show ?thesis
    using h print_results_exit_multiset [OF h] by simp
qed

section \<open>Decoding ASCII\<close>

lemma utf8_ascii: "b < 128 \<Longrightarrow> utf8 (b # bs) = b # utf8 bs"
  by (cases "(b # bs)" rule: utf8.cases) simp_all

lemma utf8_head_ge:
  "128 \<le> b \<Longrightarrow> \<exists>n r. utf8 (b # bs) = n # r \<and> 128 \<le> n"
  by (cases "(b # bs)" rule: utf8.cases) (auto simp: is_cont_def)

lemma utf8_Cons_ascii_iff:
  "n < 128 \<Longrightarrow> utf8 bs = n # r \<longleftrightarrow> (\<exists>bs'. bs = n # bs' \<and> utf8 bs' = r)"
proof
  assume n: "n < 128" and h: "utf8 bs = n # r"
  then obtain b bs' where bs: "bs = b # bs'" by (cases bs) auto
  have "b < 128"
  proof (rule ccontr)
    assume "\<not> b < 128"
    then have "128 \<le> b" by simp
    from utf8_head_ge [OF this, of bs'] h bs n show False by auto
  qed
  with h bs show "\<exists>bs'. bs = n # bs' \<and> utf8 bs' = r" by (simp add: utf8_ascii)
next
  assume "n < 128" "\<exists>bs'. bs = n # bs' \<and> utf8 bs' = r"
  then show "utf8 bs = n # r" by (auto simp: utf8_ascii)
qed

lemma decode_Cons_ascii_iff:
  "n < 128 \<Longrightarrow>
     decode s = n # r \<longleftrightarrow> (\<exists>c s'. s = c # s' \<and> of_char c = n \<and> decode s' = r)"
  unfolding decode_def by (auto simp: utf8_Cons_ascii_iff map_eq_Cons_conv)

section \<open>Properties of the filesystem locator\<close>

lemma mnt_pattern_parse:
  "re_compile ''^/mnt/[a-zA-Z]/'' =
     Some [Bol, One (Lit CHR ''/''), One (Lit CHR ''m''), One (Lit CHR ''n''),
           One (Lit CHR ''t''), One (Lit CHR ''/''),
           One (Class False [Range CHR ''a'' CHR ''z'', Range CHR ''A'' CHR ''Z'']),
           One (Lit CHR ''/'')]"
  by (simp add: re_compile_def meta_char_def backslash_def)

lemma match_here_One_ex:
  "match_here ic st (One a # its) s \<longleftrightarrow>
     (\<exists>n r. s = n # r \<and> atom_ok ic a n \<and> match_here ic False its r)"
  by (cases s) simp_all

lemma letter_class:
  "atom_ok False (Class False [Range CHR ''a'' CHR ''z'', Range CHR ''A'' CHR ''Z'']) n
     \<longleftrightarrow> (97 \<le> n \<and> n \<le> 122) \<or> (65 \<le> n \<and> n \<le> 90)"
proof -
  have "set (cset_points False (Range CHR ''a'' CHR ''z'')) = {97..<123}"
    by (simp add: Let_def del: upt_rec_numeral upt.simps)
  moreover have "set (cset_points False (Range CHR ''A'' CHR ''Z'')) = {65..<91}"
    by (simp add: Let_def del: upt_rec_numeral upt.simps)
  ultimately show ?thesis
    by (simp del: cset_points.simps) auto
qed

lemma match_literal_step:
  assumes "(of_char c :: nat) < 128"
  shows "match_here False st (One (Lit c) # its) (decode p) \<longleftrightarrow>
     (\<exists>p'. p = c # p' \<and> match_here False False its (decode p'))"
proof -
  have "match_here False st (One (Lit c) # its) (decode p) \<longleftrightarrow>
      (\<exists>r. decode p = of_char c # r \<and> match_here False False its r)"
    unfolding match_here_One_ex by (auto simp: lit_ok_def)
  also have "\<dots> \<longleftrightarrow> (\<exists>p'. p = c # p' \<and> match_here False False its (decode p'))"
    using decode_Cons_ascii_iff [OF assms, of p] by auto
  finally show ?thesis .
qed

lemma match_letter_step:
  "match_here False st
       (One (Class False [Range CHR ''a'' CHR ''z'', Range CHR ''A'' CHR ''Z'']) # its) (decode p)
   \<longleftrightarrow> (\<exists>c p'. p = c # p' \<and> ascii_letter c \<and> match_here False False its (decode p'))"
  (is "?L \<longleftrightarrow> ?R")
proof
  assume ?L
  then obtain n r where h: "decode p = n # r"
    "(97 \<le> n \<and> n \<le> 122) \<or> (65 \<le> n \<and> n \<le> 90)" "match_here False False its r"
    unfolding match_here_One_ex letter_class by blast
  from h(2) have "n < 128" by auto
  from decode_Cons_ascii_iff [OF this, of p r] h(1)
  obtain c p' where c: "p = c # p'" "of_char c = n" "decode p' = r" by blast
  from c(2) h(2) have "ascii_letter c"
    by (auto simp: ascii_letter_def is_lower_def is_upper_def)
  with c h(3) show ?R by blast
next
  assume ?R
  then obtain c p' where c: "p = c # p'" "ascii_letter c" "match_here False False its (decode p')"
    by blast
  define n where "n = (of_char c :: nat)"
  from c(2) have n: "(97 \<le> n \<and> n \<le> 122) \<or> (65 \<le> n \<and> n \<le> 90)"
    by (auto simp: ascii_letter_def is_lower_def is_upper_def n_def)
  then have "n < 128" by auto
  from decode_Cons_ascii_iff [OF this, of p "decode p'"] c(1) n_def
  have "decode p = n # decode p'" by blast
  with n c(3) show ?L unfolding match_here_One_ex letter_class by blast
qed

lemma startswith_iff: "startswith s p \<longleftrightarrow> (\<exists>r. s = p @ r)"
  unfolding startswith_def
  by (metis append_eq_conv_conj append_take_drop_id)

lemma has_mnt_drive_prefix_iff:
  "has_mnt_drive_prefix p \<longleftrightarrow>
     (\<exists>c rest. p = ''/mnt/'' @ c # CHR ''/'' # rest \<and> ascii_letter c)"
  unfolding has_mnt_drive_prefix_def startswith_iff
  by (auto split: list.splits)

lemma mnt_items_match:
  "match_here False True
          [Bol, One (Lit CHR ''/''), One (Lit CHR ''m''), One (Lit CHR ''n''),
           One (Lit CHR ''t''), One (Lit CHR ''/''),
           One (Class False [Range CHR ''a'' CHR ''z'', Range CHR ''A'' CHR ''Z'']),
           One (Lit CHR ''/'')] (decode p)
   \<longleftrightarrow> (\<exists>c rest. p = ''/mnt/'' @ c # CHR ''/'' # rest \<and> ascii_letter c)"
proof -
  have lt: "(of_char CHR ''/'' :: nat) < 128" "(of_char CHR ''m'' :: nat) < 128"
    "(of_char CHR ''n'' :: nat) < 128" "(of_char CHR ''t'' :: nat) < 128"
    by simp_all
  show ?thesis
    unfolding match_here.simps(2) match_literal_step [OF lt(1)] match_literal_step [OF lt(2)]
      match_literal_step [OF lt(3)] match_literal_step [OF lt(4)] match_letter_step
      match_here.simps(1)
    by auto
qed

text \<open>The regular expression of the script and the prefix of the specification agree.\<close>

lemma re_match_mnt: "re_match ''^/mnt/[a-zA-Z]/'' p False = has_mnt_drive_prefix p"
  unfolding re_match_def mnt_pattern_parse option.case mnt_items_match has_mnt_drive_prefix_iff
  by (rule refl)

lemma project_fs_iff:
  "project_is_on_linux_fs abspath p = (\<not> has_mnt_drive_prefix (abspath p))"
  by (simp add: project_is_on_linux_fs_def Let_def re_match_mnt)


lemma abspath_mnt_c: "posix_abspath ''/home/dev'' ''/mnt/c'' = ''/mnt/c''"
  by code_simp



lemma abspath_mnt_cc: "posix_abspath ''/home/dev'' ''/mnt/cc/x'' = ''/mnt/cc/x''"
  by code_simp








text \<open>
  C9.  When the absolute form of the path is \<open>/mnt/\<close> and one character with nothing
  after it, or \<open>/mnt/\<close> and a segment of two or more characters without a slash
  (followed by anything), the locator reports \<open>ok = True\<close>: the pattern needs a slash
  right after the one drive letter.
\<close>

theorem mnt_without_drive_slash_ok:
  "abspath p = ''/mnt/'' @ [c]
     \<or> (\<exists>seg rest. abspath p = ''/mnt/'' @ seg @ rest \<and> 2 \<le> length seg \<and> CHR ''/'' \<notin> set seg)
   \<Longrightarrow> ok (check_project_path abspath p) = True"
proof -
  assume h: "abspath p = ''/mnt/'' @ [c]
     \<or> (\<exists>seg rest. abspath p = ''/mnt/'' @ seg @ rest \<and> 2 \<le> length seg \<and> CHR ''/'' \<notin> set seg)"
  have "\<not> has_mnt_drive_prefix (abspath p)"
  proof
    assume "has_mnt_drive_prefix (abspath p)"
    then obtain d rest' where eq: "abspath p = ''/mnt/'' @ d # CHR ''/'' # rest'"
      unfolding has_mnt_drive_prefix_iff by blast
    from h show False
    proof
      assume "abspath p = ''/mnt/'' @ [c]"
      with eq show False by simp
    next
      assume "\<exists>seg rest. abspath p = ''/mnt/'' @ seg @ rest \<and> 2 \<le> length seg \<and> CHR ''/'' \<notin> set seg"
      then obtain seg rest where s: "abspath p = ''/mnt/'' @ seg @ rest" "2 \<le> length seg"
        "CHR ''/'' \<notin> set seg" by blast
      from s(2) obtain x y seg' where seg: "seg = x # y # seg'"
        by (cases seg; cases "tl seg") auto
      from eq s(1) seg have "y = CHR ''/''" by simp
      with seg s(3) show False by simp
    qed
  qed
  then show ?thesis
    by (simp add: check_project_path_def Let_def project_fs_iff)
qed

theorem mnt_without_drive_slash_ok_witness:
  "posix_abspath ''/home/dev'' ''/mnt/c'' = ''/mnt/'' @ [CHR ''c'']
   \<and> ok (check_project_path (posix_abspath ''/home/dev'') ''/mnt/c'') = True
   \<and> posix_abspath ''/home/dev'' ''/mnt/cc/x'' = ''/mnt/'' @ ''cc'' @ ''/x''
   \<and> 2 \<le> length ''cc'' \<and> CHR ''/'' \<notin> set ''cc''
   \<and> ok (check_project_path (posix_abspath ''/home/dev'') ''/mnt/cc/x'') = True"
proof -
  have a: "posix_abspath ''/home/dev'' ''/mnt/c'' = ''/mnt/'' @ [CHR ''c'']"
    by (simp add: abspath_mnt_c)
  have b: "posix_abspath ''/home/dev'' ''/mnt/cc/x'' = ''/mnt/'' @ ''cc'' @ ''/x''
             \<and> 2 \<le> length ''cc'' \<and> CHR ''/'' \<notin> set ''cc''"
    by (simp add: abspath_mnt_cc)
  have "ok (check_project_path (posix_abspath ''/home/dev'') ''/mnt/c'') = True"
    using a by (intro mnt_without_drive_slash_ok [where c = "CHR ''c''"]) simp
  moreover have "ok (check_project_path (posix_abspath ''/home/dev'') ''/mnt/cc/x'') = True"
    using b by (intro mnt_without_drive_slash_ok [where c = "CHR ''c''"]) blast
  ultimately show ?thesis using a b by simp
qed

section \<open>Properties of the platform detector\<close>

lemma lower_linux:
  "lower ''Linux'' \<noteq> ''windows'' \<and> lower ''Linux'' \<noteq> ''darwin''"
  by code_simp

lemma plain_kernel_text:
  "\<not> sublist ''microsoft'' (lower ''Linux version 6.1.0 (gcc 12.2.0)'')"
  by code_simp

lemma wsl_kernel_text:
  "sublist ''microsoft'' (lower ''Linux version 5.15.90.1-MICROSOFT-standard-WSL2'')"
  by code_simp

lemma lower_windows:
  "lower ''Windows'' = ''windows''"
  by code_simp

lemma lower_darwin:
  "lower ''Darwin'' = ''darwin'' \<and> lower ''Darwin'' \<noteq> ''windows''"
  by code_simp

lemma is_wsl_signal: "is_wsl environ proc_version = wsl_signal environ proc_version"
  by (simp add: is_wsl_def wsl_signal_def truthy_def environ_get_def split: option.splits)

text \<open>
  C3, amended.  \<open>check_os\<close> reports \<open>ok = False\<close> whenever the OS name is Windows
  (in any mix of cases), whatever the other signals; otherwise \<open>ok = True\<close>, and the
  host is classified WSL when \<open>WSL_DISTRO_NAME\<close> has a non-empty value or the kernel
  version text holds \<open>microsoft\<close> case-insensitively, else macOS when the OS name is
  Darwin, else Linux.  The result is required.  When the kernel version file cannot be
  read the function still returns, and the signal is the variable alone.
\<close>

theorem check_os_classification:
  "(lower system = ''windows'' \<longrightarrow>
      ok (check_os system environ proc_version) = False
      \<and> details (check_os system environ proc_version) = ''Detected: '' @ system)
   \<and> (lower system \<noteq> ''windows'' \<longrightarrow>
      ok (check_os system environ proc_version) = True
      \<and> details (check_os system environ proc_version) =
          ''Detected: '' @ (if wsl_signal environ proc_version then ''WSL''
                            else if lower system = ''darwin'' then ''macOS'' else ''Linux''))
   \<and> required (check_os system environ proc_version) = True
   \<and> (wsl_signal environ None \<longleftrightarrow>
        (\<exists>v. environ ''WSL_DISTRO_NAME'' = Some v \<and> v \<noteq> []))"
  by (auto simp: check_os_def is_windows_native_def is_macos_def is_wsl_signal Let_def
      wsl_signal_def split: option.splits)

text \<open>
  C3, as stated, fails where the variable is set to the empty string: with the OS name
  Linux and a kernel version text without the marker, the host is classified Linux
  although the variable is set.
\<close>

theorem check_os_counterexample:
  "[''WSL_DISTRO_NAME'' \<mapsto> ''''] ''WSL_DISTRO_NAME'' = Some ''''
   \<and> lower ''Linux'' \<noteq> ''windows''
   \<and> details (check_os ''Linux'' [''WSL_DISTRO_NAME'' \<mapsto> '''']
                 (Some ''Linux version 6.1.0 (gcc 12.2.0)'')) = ''Detected: Linux''"
  by (simp add: check_os_def is_windows_native_def is_macos_def is_wsl_def truthy_def
      environ_get_def lower_linux plain_kernel_text Let_def)

theorem check_os_classification_witness:
  "lower ''Windows'' = ''windows''
   \<and> ok (check_os ''Windows'' [''WSL_DISTRO_NAME'' \<mapsto> ''Ubuntu''] None) = False
   \<and> lower ''Linux'' \<noteq> ''windows''
   \<and> details (check_os ''Linux'' [''WSL_DISTRO_NAME'' \<mapsto> ''Ubuntu''] None) = ''Detected: WSL''
   \<and> details (check_os ''Linux'' Map.empty
        (Some ''Linux version 5.15.90.1-MICROSOFT-standard-WSL2'')) = ''Detected: WSL''
   \<and> details (check_os ''Darwin'' Map.empty None) = ''Detected: macOS''
   \<and> details (check_os ''Linux'' Map.empty None) = ''Detected: Linux''
   \<and> ok (check_os ''Linux'' Map.empty None) = True"
  using check_os_classification [of "''Windows''" "[''WSL_DISTRO_NAME'' \<mapsto> ''Ubuntu'']" None]
    check_os_classification [of "''Linux''" "[''WSL_DISTRO_NAME'' \<mapsto> ''Ubuntu'']" None]
    check_os_classification [of "''Linux''" Map.empty "Some ''Linux version 5.15.90.1-MICROSOFT-standard-WSL2''"]
    check_os_classification [of "''Darwin''" Map.empty None]
    check_os_classification [of "''Linux''" Map.empty None]
  by (simp add: lower_linux wsl_kernel_text lower_windows lower_darwin wsl_signal_def)

text \<open>
  C10.  When \<open>WSL_DISTRO_NAME\<close> is set to the empty string, \<open>is_wsl\<close> answers as if the
  variable were absent: it is true exactly when the kernel version file was read and its
  text holds \<open>microsoft\<close> case-insensitively.
\<close>

theorem is_wsl_empty_variable:
  "environ ''WSL_DISTRO_NAME'' = Some '''' \<Longrightarrow>
     is_wsl environ proc_version =
       (case proc_version of None \<Rightarrow> False | Some t \<Rightarrow> sublist ''microsoft'' (lower t))
     \<and> is_wsl environ proc_version = is_wsl (environ(''WSL_DISTRO_NAME'' := None)) proc_version"
  by (simp add: is_wsl_def truthy_def environ_get_def)

theorem is_wsl_empty_variable_witness:
  "[''WSL_DISTRO_NAME'' \<mapsto> ''''] ''WSL_DISTRO_NAME'' = Some ''''
   \<and> is_wsl [''WSL_DISTRO_NAME'' \<mapsto> ''''] None = False
   \<and> is_wsl [''WSL_DISTRO_NAME'' \<mapsto> '''']
        (Some ''Linux version 5.15.90.1-MICROSOFT-standard-WSL2'') = True
   \<and> is_wsl [''WSL_DISTRO_NAME'' \<mapsto> ''''] (Some ''Linux version 6.1.0 (gcc 12.2.0)'') = False"
  using is_wsl_empty_variable [of "[''WSL_DISTRO_NAME'' \<mapsto> '''']" None]
    is_wsl_empty_variable [of "[''WSL_DISTRO_NAME'' \<mapsto> '''']"
      "Some ''Linux version 5.15.90.1-MICROSOFT-standard-WSL2''"]
    is_wsl_empty_variable [of "[''WSL_DISTRO_NAME'' \<mapsto> '''']"
      "Some ''Linux version 6.1.0 (gcc 12.2.0)''"]
  by (simp add: plain_kernel_text wsl_kernel_text)

section \<open>Properties of the version check, the binary resolver and the subprocess utility\<close>

lemma tuple_ge_3_10:
  "tuple_ge (major, minor) (3, 10) \<longleftrightarrow> 3 < major \<or> (major = 3 \<and> 10 \<le> minor)"
  by (auto simp: tuple_ge_def)

text \<open>
  C5.  For an interpreter whose version string has a first token (as every
  \<open>sys.version\<close> has), the check returns a result with \<open>ok = True\<close> exactly when
  \<open>(major, minor) >= (3, 10)\<close>, that is \<open>major > 3\<close>, or \<open>major = 3\<close> and
  \<open>minor >= 10\<close>; the result is required.  So 3.9.x gives false, 3.10.0 and 3.13.1 true.
\<close>

theorem check_python_version_threshold:
  "split_ws (version sys) \<noteq> [] \<Longrightarrow>
     \<exists>r. check_python_version sys = Inr r
       \<and> ok r = (3 < version_major sys \<or> (version_major sys = 3 \<and> 10 \<le> version_minor sys))
       \<and> required r = True
       \<and> details r = hd (split_ws (version sys)) @ '' ('' @ executable sys @ '')''"
  by (cases "split_ws (version sys)") (simp_all add: check_python_version_def tuple_ge_3_10)

lemma split_39: "split_ws (version sys_39) = [''3.9.18'', ''(main,'', ''Aug'', ''25'', ''2023,'', ''13:20:14)'', ''[GCC'', ''11.4.0]'']"
  by code_simp

lemma split_310: "hd (split_ws (version sys_310)) = ''3.10.0'' \<and> split_ws (version sys_310) \<noteq> []"
  by code_simp

lemma split_313: "hd (split_ws (version sys_313)) = ''3.13.1'' \<and> split_ws (version sys_313) \<noteq> []"
  by code_simp

theorem check_python_version_threshold_witness:
  "split_ws (version sys_39) \<noteq> []
   \<and> (\<exists>r. check_python_version sys_39 = Inr r \<and> ok r = False \<and> required r = True
          \<and> details r = ''3.9.18 (/usr/bin/python3)'')
   \<and> split_ws (version sys_310) \<noteq> []
   \<and> (\<exists>r. check_python_version sys_310 = Inr r \<and> ok r = True \<and> required r = True)
   \<and> split_ws (version sys_313) \<noteq> []
   \<and> (\<exists>r. check_python_version sys_313 = Inr r \<and> ok r = True \<and> required r = True
          \<and> details r = ''3.13.1 (/home/dev/.venv/bin/python)'')"
proof -
  have a: "split_ws (version sys_39) \<noteq> []" by (simp add: split_39)
  have b: "split_ws (version sys_310) \<noteq> []" by (simp add: split_310)
  have c: "split_ws (version sys_313) \<noteq> []" by (simp add: split_313)
  show ?thesis
    using check_python_version_threshold [OF a] check_python_version_threshold [OF b]
      check_python_version_threshold [OF c] a b c
    by (simp add: split_39 split_310 split_313) (auto simp: sys_39_def sys_310_def sys_313_def)
qed

text \<open>
  C6.  When the lookup of the name finds nothing, \<open>check_bin\<close> reports \<open>ok = False\<close>
  with details \<open>not found\<close>; when it resolves the name to a (non-empty) path, \<open>ok = True\<close>
  with that path as details.  The model of \<open>check_bin\<close> consults the lookup function
  only: no process is run.
\<close>

theorem check_bin_lookup:
  "(shutil_which bin_name = None \<longrightarrow>
      ok (check_bin shutil_which bin_name req label) = False
      \<and> details (check_bin shutil_which bin_name req label) = ''not found'')
   \<and> (\<forall>p. shutil_which bin_name = Some p \<and> p \<noteq> [] \<longrightarrow>
      ok (check_bin shutil_which bin_name req label) = True
      \<and> details (check_bin shutil_which bin_name req label) = p)
   \<and> required (check_bin shutil_which bin_name req label) = req"
  by (simp add: check_bin_def which_def or_else_def Let_def)

theorem check_bin_lookup_witness:
  "which_sample ''gemini'' = None
   \<and> ok (check_bin which_sample ''gemini'' False ''Gemini CLI (gemini)'') = False
   \<and> details (check_bin which_sample ''gemini'' False ''Gemini CLI (gemini)'') = ''not found''
   \<and> which_sample ''uv'' = Some ''/usr/local/bin/uv'' \<and> ''/usr/local/bin/uv'' \<noteq> []
   \<and> ok (check_bin which_sample ''uv'' True ''uv'') = True
   \<and> details (check_bin which_sample ''uv'' True ''uv'') = ''/usr/local/bin/uv''"
  using check_bin_lookup [of which_sample "''gemini''" False "''Gemini CLI (gemini)''"]
    check_bin_lookup [of which_sample "''uv''" True "''uv''"]
  by (simp add: which_sample_def)

text \<open>
  C7, as stated, fails for a missing executable that \<open>subprocess.run\<close> does not report
  as \<open>FileNotFoundError\<close>.  When a component of the command's path is a regular file
  (\<open>/etc/passwd/nosuchtool\<close>) the operating system answers \<open>ENOTDIR\<close>, which Python
  raises as \<open>NotADirectoryError\<close>; \<open>run\<close> does not catch it.
\<close>

theorem run_counterexample:
  "subprocess_sample [ascii ''/etc/passwd/nosuchtool''] 5 = Raises NotADirectoryError
   \<and> run subprocess_sample [ascii ''/etc/passwd/nosuchtool''] None = Inl NotADirectoryError"
  by (simp add: run_def subprocess_sample_def ascii_def)

text \<open>
  C7, amended.  \<open>run\<close> passes the timeout 5 when the caller gives none.  When
  \<open>subprocess.run\<close> raises \<open>FileNotFoundError\<close> for a command (a non-empty list),
  \<open>run\<close> returns \<open>(127, "", "not found: " + cmd[0])\<close>; when it raises
  \<open>TimeoutExpired\<close>, \<open>run\<close> returns \<open>(124, "", "timeout")\<close>: non-zero return codes
  with an empty output.  Any other exception of \<open>subprocess.run\<close> leaves \<open>run\<close>.  A completed process
  gives its return code and its two outputs, stripped of white space.
\<close>

theorem run_converts_failures:
  "(subprocess_run cmd (case timeout_arg of None \<Rightarrow> 5 | Some t \<Rightarrow> t) = Raises FileNotFoundError
      \<and> cmd \<noteq> [] \<longrightarrow>
      run subprocess_run cmd timeout_arg = Inr (127, [], ascii ''not found: '' @ hd cmd))
   \<and> (subprocess_run cmd (case timeout_arg of None \<Rightarrow> 5 | Some t \<Rightarrow> t) = Raises TimeoutExpired
      \<longrightarrow> run subprocess_run cmd timeout_arg = Inr (124, [], ascii ''timeout''))
   \<and> (\<forall>e. subprocess_run cmd (case timeout_arg of None \<Rightarrow> 5 | Some t \<Rightarrow> t) = Raises e
          \<and> e \<noteq> FileNotFoundError \<and> e \<noteq> TimeoutExpired
      \<longrightarrow> run subprocess_run cmd timeout_arg = Inl e)
   \<and> (\<forall>rc out err.
        subprocess_run cmd (case timeout_arg of None \<Rightarrow> 5 | Some t \<Rightarrow> t)
          = CompletedProcess rc out err
      \<longrightarrow> run subprocess_run cmd timeout_arg = Inr (rc, strip out, strip err))
   \<and> run subprocess_run cmd None = run subprocess_run cmd (Some 5)"
  by (cases cmd) (simp_all add: run_def)

theorem run_converts_failures_witness:
  "subprocess_sample [ascii ''nosuchtool'', ascii ''--version''] 5 = Raises FileNotFoundError
   \<and> [ascii ''nosuchtool'', ascii ''--version''] \<noteq> []
   \<and> run subprocess_sample [ascii ''nosuchtool'', ascii ''--version''] None
        = Inr (127, [], ascii ''not found: nosuchtool'')
   \<and> subprocess_sample [ascii ''sleep'', ascii ''60''] 5 = Raises TimeoutExpired
   \<and> run subprocess_sample [ascii ''sleep'', ascii ''60''] None = Inr (124, [], ascii ''timeout'')
   \<and> subprocess_sample [ascii ''/etc/passwd/nosuchtool''] 5 = Raises NotADirectoryError
   \<and> NotADirectoryError \<noteq> FileNotFoundError \<and> NotADirectoryError \<noteq> TimeoutExpired
   \<and> run subprocess_sample [ascii ''/etc/passwd/nosuchtool''] None = Inl NotADirectoryError
   \<and> subprocess_sample [ascii ''true''] 5
        = CompletedProcess 0 ([0xA0] @ ascii '' ok'' @ [0x2003, 10]) (ascii ''warn '')
   \<and> run subprocess_sample [ascii ''true''] None = Inr (0, ascii ''ok'', ascii ''warn'')"
  using run_converts_failures [of subprocess_sample "[ascii ''nosuchtool'', ascii ''--version'']" None]
    run_converts_failures [of subprocess_sample "[ascii ''sleep'', ascii ''60'']" None]
    run_converts_failures [of subprocess_sample "[ascii ''/etc/passwd/nosuchtool'']" None]
    run_converts_failures [of subprocess_sample "[ascii ''true'']" None]
  by (simp add: subprocess_sample_def ascii_def strip_def unicode_isspace_def)

section \<open>The matcher and the meaning of a pattern\<close>













section \<open>Properties of the path hygiene scanner\<close>












































end
